theory Spec2Isabelle
  imports Complex_Main "HOL-Library.Log_Nat"
begin

text \<open>
  A model of the two modules of \<^verbatim>\<open>android_world.env\<close>: the action record of
  \<^verbatim>\<open>json_action.py\<close> with its equality and its JSON form, and the environment of
  \<^verbatim>\<open>interface.py\<close> with reset, stabilization and the execution of an action.
  Exceptions are values of the type \<open>error\<close>; a call that raises returns \<open>Inl\<close>.
\<close>

section \<open>The action model (json\_action.py)\<close>

text \<open>
  Python values that a field of an action can hold according to its annotation:
  \<^verbatim>\<open>None\<close>, a \<^verbatim>\<open>str\<close> or an \<^verbatim>\<open>int\<close>. A \<^verbatim>\<open>str\<close> is a \<^typ>\<open>string\<close> whose
  characters are the code points U+0000 to U+00FF.
\<close>

datatype pyval = PyNone | PyStr string | PyInt int

datatype error = AttributeError | ValueError

text \<open>The annotation \<^verbatim>\<open>Optional[str | int]\<close> of the field \<^verbatim>\<open>index\<close>.\<close>

datatype str_or_int = IndexStr string | IndexInt int

definition ANSWER :: string where "ANSWER = ''answer''"
definition CLICK :: string where "CLICK = ''click''"
definition DOUBLE_TAP :: string where "DOUBLE_TAP = ''double_tap''"
definition INPUT_TEXT :: string where "INPUT_TEXT = ''input_text''"
definition KEYBOARD_ENTER :: string where "KEYBOARD_ENTER = ''keyboard_enter''"
definition LONG_PRESS :: string where "LONG_PRESS = ''long_press''"
definition NAVIGATE_BACK :: string where "NAVIGATE_BACK = ''navigate_back''"
definition NAVIGATE_HOME :: string where "NAVIGATE_HOME = ''navigate_home''"
definition OPEN_APP :: string where "OPEN_APP = ''open_app''"
definition SCROLL :: string where "SCROLL = ''scroll''"
definition STATUS :: string where "STATUS = ''status''"
definition SWIPE :: string where "SWIPE = ''swipe''"
definition UNKNOWN :: string where "UNKNOWN = ''unknown''"
definition WAIT :: string where "WAIT = ''wait''"

definition ACTION_TYPES :: "string list" where
  "ACTION_TYPES =
     [CLICK, DOUBLE_TAP, SCROLL, SWIPE, INPUT_TEXT, NAVIGATE_HOME, NAVIGATE_BACK,
      KEYBOARD_ENTER, OPEN_APP, STATUS, WAIT, LONG_PRESS, ANSWER, UNKNOWN]"

text \<open>
  The dataclass \<^verbatim>\<open>JSONAction\<close>: nine fields, each \<^verbatim>\<open>None\<close> by default. The fields
  \<^verbatim>\<open>x\<close>, \<^verbatim>\<open>y\<close> and \<^verbatim>\<open>text\<close> are \<open>x_field\<close>, \<open>y_field\<close> and \<open>text_field\<close> here.
  The class docstring also lists an attribute \<^verbatim>\<open>orientation\<close>; the class declares no
  such field.
\<close>

record JSONAction =
  action_type :: "string option"
  index :: "str_or_int option"
  x_field :: "int option"
  y_field :: "int option"
  text_field :: "string option"
  direction :: "string option"
  goal_status :: "string option"
  app_name :: "string option"
  activity_nickname :: "string option"

text \<open>
  The \<^verbatim>\<open>__init__\<close> that \<^verbatim>\<open>@dataclasses.dataclass()\<close> generates: it stores its nine
  arguments. The class has no \<^verbatim>\<open>__post_init__\<close>, and \<^verbatim>\<open>_ACTION_TYPES\<close> is read
  nowhere in the module.
\<close>

definition JSONAction_init ::
  "string option \<Rightarrow> str_or_int option \<Rightarrow> int option \<Rightarrow> int option \<Rightarrow> string option \<Rightarrow>
   string option \<Rightarrow> string option \<Rightarrow> string option \<Rightarrow> string option \<Rightarrow> error + JSONAction" where
  "JSONAction_init a_type idx x y txt dir status name nickname =
     Inr \<lparr>action_type = a_type, index = idx, x_field = x, y_field = y, text_field = txt,
          direction = dir, goal_status = status, app_name = name,
          activity_nickname = nickname\<rparr>"

definition of_str :: "string option \<Rightarrow> pyval" where
  "of_str v = (case v of None \<Rightarrow> PyNone | Some s \<Rightarrow> PyStr s)"

definition of_int_opt :: "int option \<Rightarrow> pyval" where
  "of_int_opt v = (case v of None \<Rightarrow> PyNone | Some i \<Rightarrow> PyInt i)"

definition of_index :: "str_or_int option \<Rightarrow> pyval" where
  "of_index v =
     (case v of None \<Rightarrow> PyNone | Some (IndexStr s) \<Rightarrow> PyStr s | Some (IndexInt i) \<Rightarrow> PyInt i)"

text \<open>
  The instance dictionary \<^verbatim>\<open>self.__dict__\<close>: the nine fields in declaration order.
\<close>

definition instance_dict :: "JSONAction \<Rightarrow> (string \<times> pyval) list" where
  "instance_dict a =
     [(''action_type'', of_str (action_type a)),
      (''index'', of_index (index a)),
      (''x'', of_int_opt (x_field a)),
      (''y'', of_int_opt (y_field a)),
      (''text'', of_str (text_field a)),
      (''direction'', of_str (direction a)),
      (''goal_status'', of_str (goal_status a)),
      (''app_name'', of_str (app_name a)),
      (''activity_nickname'', of_str (activity_nickname a))]"

text \<open>
  Reading a data attribute \<^verbatim>\<open>a.name\<close>: the entry of the instance dictionary, and
  \<^verbatim>\<open>AttributeError\<close> when there is none.
\<close>

definition getattr :: "JSONAction \<Rightarrow> string \<Rightarrow> error + pyval" where
  "getattr a name =
     (case map_of (instance_dict a) name of None \<Rightarrow> Inl AttributeError | Some v \<Rightarrow> Inr v)"

text \<open>
  \<^verbatim>\<open>str.lower()\<close> on code points below U+0100: the letters A to Z and the Latin-1
  capitals U+00C0 to U+00DE (without the multiplication sign U+00D7) move up by 32.
\<close>

definition lower_char :: "char \<Rightarrow> char" where
  "lower_char c =
     (let n = (of_char c :: nat)
      in if (65 \<le> n \<and> n \<le> 90) \<or> (192 \<le> n \<and> n \<le> 222 \<and> n \<noteq> 215)
         then char_of (n + 32) else c)"

definition lower :: "string \<Rightarrow> string" where
  "lower s = map lower_char s"

text \<open>
  The two case-insensitive comparisons at the head of \<^verbatim>\<open>_compare_actions\<close>:
  \<^verbatim>\<open>
  if a.app_name is not None and b.app_name is not None:
    app_name_match = a.app_name.lower() == b.app_name.lower()
  else:
    app_name_match = a.app_name == b.app_name
  \<close>
\<close>

definition lower_match :: "string option \<Rightarrow> string option \<Rightarrow> bool" where
  "lower_match u v =
     (case u of
        None \<Rightarrow> u = v
      | Some s \<Rightarrow> (case v of None \<Rightarrow> u = v | Some t \<Rightarrow> lower s = lower t))"

text \<open>
  \<^verbatim>\<open>_compare_actions\<close>. The returned expression is a chain of \<^verbatim>\<open>and\<close>, which
  Python evaluates from the left and leaves at the first false operand; the last
  operand \<^verbatim>\<open>a.orientation == b.orientation\<close> is reached only when the eight before
  it are true, and reads an attribute.
\<close>

definition compare_actions :: "JSONAction \<Rightarrow> JSONAction \<Rightarrow> error + bool" where
  "compare_actions a b =
     (let app_name_match = lower_match (app_name a) (app_name b);
          text_match = lower_match (text_field a) (text_field b)
      in if \<not> app_name_match then Inr False
         else if \<not> text_match then Inr False
         else if action_type a \<noteq> action_type b then Inr False
         else if index a \<noteq> index b then Inr False
         else if x_field a \<noteq> x_field b then Inr False
         else if y_field a \<noteq> y_field b then Inr False
         else if direction a \<noteq> direction b then Inr False
         else if goal_status a \<noteq> goal_status b then Inr False
         else (case getattr a ''orientation'' of
                 Inl e \<Rightarrow> Inl e
               | Inr oa \<Rightarrow>
                   (case getattr b ''orientation'' of
                      Inl e \<Rightarrow> Inl e
                    | Inr ob \<Rightarrow> Inr (oa = ob))))"

text \<open>
  \<^verbatim>\<open>JSONAction.__eq__\<close>: the right operand is any Python object, an action or
  something else.
\<close>

datatype pyobject = ActionObj JSONAction | OtherObj

definition JSONAction_eq :: "JSONAction \<Rightarrow> pyobject \<Rightarrow> error + bool" where
  "JSONAction_eq self other =
     (case other of ActionObj b \<Rightarrow> compare_actions self b | OtherObj \<Rightarrow> Inr False)"

definition JSONAction_ne :: "JSONAction \<Rightarrow> pyobject \<Rightarrow> error + bool" where
  "JSONAction_ne self other =
     (case JSONAction_eq self other of Inl e \<Rightarrow> Inl e | Inr r \<Rightarrow> Inr (\<not> r))"

text \<open>
  \<^verbatim>\<open>json_str\<close> keeps the entries of the instance dictionary that are not \<^verbatim>\<open>None\<close>,
  in order, and hands them to \<^verbatim>\<open>json.dumps\<close> with the separators \<^verbatim>\<open>(',', ':')\<close>.
  \<^verbatim>\<open>json.dumps\<close> writes a string between double quotes, escaping the quote, the
  backslash and every character outside the printable ASCII range, and an integer in
  decimal.
\<close>

definition hex_digit :: "nat \<Rightarrow> char" where
  "hex_digit n = (if n < 10 then char_of (48 + n) else char_of (87 + n))"

definition escape_char :: "char \<Rightarrow> string" where
  "escape_char c =
     (let n = (of_char c :: nat)
      in if n = 34 then [CHR 0x5C, CHR 0x22]
         else if n = 92 then [CHR 0x5C, CHR 0x5C]
         else if n = 10 then [CHR 0x5C, CHR ''n'']
         else if n = 13 then [CHR 0x5C, CHR ''r'']
         else if n = 9 then [CHR 0x5C, CHR ''t'']
         else if n = 12 then [CHR 0x5C, CHR ''f'']
         else if n = 8 then [CHR 0x5C, CHR ''b'']
         else if 32 \<le> n \<and> n \<le> 126 then [c]
         else [CHR 0x5C, CHR ''u'', CHR ''0'', CHR ''0'', hex_digit (n div 16), hex_digit (n mod 16)])"

definition encode_basestring_ascii :: "string \<Rightarrow> string" where
  "encode_basestring_ascii s = [CHR 0x22] @ concat (map escape_char s) @ [CHR 0x22]"

fun nat_digits :: "nat \<Rightarrow> string" where
  "nat_digits n =
     (if n < 10 then [char_of (48 + n)] else nat_digits (n div 10) @ [char_of (48 + n mod 10)])"

definition int_repr :: "int \<Rightarrow> string" where
  "int_repr i = (if i < 0 then CHR ''-'' # nat_digits (nat (- i)) else nat_digits (nat i))"

definition json_value :: "pyval \<Rightarrow> string" where
  "json_value v =
     (case v of
        PyNone \<Rightarrow> ''null''
      | PyStr s \<Rightarrow> encode_basestring_ascii s
      | PyInt i \<Rightarrow> int_repr i)"

definition json_item :: "string \<times> pyval \<Rightarrow> string" where
  "json_item kv = encode_basestring_ascii (fst kv) @ '':'' @ json_value (snd kv)"

fun join_comma :: "string list \<Rightarrow> string" where
  "join_comma [] = []"
| "join_comma [s] = s"
| "join_comma (s # t # ss) = s @ '','' @ join_comma (t # ss)"

definition json_dumps :: "(string \<times> pyval) list \<Rightarrow> string" where
  "json_dumps d = ''{'' @ join_comma (map json_item d) @ ''}''"

definition json_str :: "JSONAction \<Rightarrow> string" where
  "json_str self = json_dumps (filter (\<lambda>kv. snd kv \<noteq> PyNone) (instance_dict self))"

section \<open>Python floats\<close>

text \<open>
  \<^verbatim>\<open>sleep_duration\<close>, \<^verbatim>\<open>timeout\<close> and \<^verbatim>\<open>elapsed_time\<close> are Python floats, that is
  IEEE 754 binary64 numbers. A finite one is the rational it denotes, and the sum of
  two of them is the exact sum rounded to the nearest double, ties to the even
  significand: for \<open>x\<close> with \<open>2 ^ e \<le> \<bar>x\<bar> < 2 ^ (e + 1)\<close> the doubles near \<open>x\<close> are the
  multiples of \<open>2 ^ (e - 52)\<close>, and of \<open>2 ^ - 1074\<close> in the subnormal range. The model has
  no infinity and no NaN: a sum that rounds to \<open>2 ^ 1024\<close> or more, where the program
  gets \<^verbatim>\<open>inf\<close>, keeps its rounded value, which like \<^verbatim>\<open>inf\<close> is less than no double.
\<close>

definition pow2 :: "int \<Rightarrow> rat" where
  "pow2 k = (if 0 \<le> k then 2 ^ nat k else 1 / 2 ^ nat (- k))"

text \<open>\<open>ilog2 x\<close> is the integer \<open>e\<close> with \<open>2 ^ e \<le> x < 2 ^ (e + 1)\<close>, for \<open>0 < x\<close>.\<close>

definition ilog2 :: "rat \<Rightarrow> int" where
  "ilog2 x =
     (let k = bitlen (fst (quotient_of x)) - bitlen (snd (quotient_of x))
      in if pow2 k \<le> x then k else k - 1)"

definition round_half_even :: "rat \<Rightarrow> int" where
  "round_half_even x =
     (let f = \<lfloor>x\<rfloor>; d = x - of_int f
      in if d < 1 / 2 then f else if 1 / 2 < d then f + 1 else if even f then f else f + 1)"

definition round_double :: "rat \<Rightarrow> rat" where
  "round_double x =
     (if x = 0 then 0
      else (let q = max (ilog2 \<bar>x\<bar> - 52) (- 1074)
            in of_int (round_half_even (x / pow2 q)) * pow2 q))"

definition float_add :: "rat \<Rightarrow> rat \<Rightarrow> rat" where
  "float_add x y = round_double (x + y)"

section \<open>The environment (interface.py)\<close>

text \<open>
  The dataclass \<^verbatim>\<open>State\<close>. Pixels, forest and UI elements come from collaborators
  outside the module and are type parameters; a list of UI elements is compared with
  \<^verbatim>\<open>==\<close>, element by element and in order.
\<close>

record ('p, 'f, 'e) State =
  pixels :: 'p
  forest :: 'f
  ui_elements :: "'e list"

text \<open>
  What the environment does to its collaborators, in the order it does it:
  \<^verbatim>\<open>adb_utils.press_home_button\<close>, \<^verbatim>\<open>base_env.reset()\<close>, \<^verbatim>\<open>base_env.step\<close> with the
  no-op action, \<^verbatim>\<open>time.sleep\<close>, \<^verbatim>\<open>adb_utils.send_android_intent\<close> (command,
  action, extras), \<^verbatim>\<open>adb_utils.get_logical_screen_size\<close> and
  \<^verbatim>\<open>actuation.execute_adb_action\<close> (the action and the UI elements it is given).
\<close>

datatype 'e event =
    PressHomeButton
  | EnvReset
  | EnvStep
  | Sleep rat
  | SendAndroidIntent string string "(string \<times> string) list"
  | GetLogicalScreenSize
  | ExecuteAdbAction JSONAction "'e list"

text \<open>
  An \<^verbatim>\<open>AsyncAndroidEnv\<close>. The device behind \<^verbatim>\<open>_base_env\<close> is the sequence of
  observations it answers with, already processed by \<^verbatim>\<open>_process_timestep\<close>:
  \<open>observations self n\<close> is the answer to request number \<open>n\<close>, and \<open>observed self\<close>
  counts the requests made so far. \<open>trace\<close> records the calls to collaborators.
  \<open>prior_state\<close> is \<^verbatim>\<open>_prior_state\<close>. \<open>interaction_cache\<close> is assigned
  \<^verbatim>\<open>action.text\<close> by \<^verbatim>\<open>execute_action\<close>, an \<^verbatim>\<open>Optional[str]\<close>.
\<close>

record ('p, 'f, 'e) AsyncAndroidEnv =
  observations :: "nat \<Rightarrow> ('p, 'f, 'e) State"
  observed :: nat
  trace :: "'e event list"
  prior_state :: "('p, 'f, 'e) State option"
  interaction_cache :: "string option"

type_synonym ('a, 'p, 'f, 'e) outcome =
  "((error + 'a) \<times> ('p, 'f, 'e) AsyncAndroidEnv) option"

definition AsyncAndroidEnv_init ::
  "(nat \<Rightarrow> ('p, 'f, 'e) State) \<Rightarrow> ('p, 'f, 'e) AsyncAndroidEnv" where
  "AsyncAndroidEnv_init base_env =
     \<lparr>observations = base_env, observed = 0, trace = [], prior_state = None,
      interaction_cache = Some ''''\<rparr>"

definition emit :: "'e event \<Rightarrow> ('p, 'f, 'e) AsyncAndroidEnv \<Rightarrow> ('p, 'f, 'e) AsyncAndroidEnv" where
  "emit ev self = self\<lparr>trace := trace self @ [ev]\<rparr>"

definition next_observation ::
  "('p, 'f, 'e) AsyncAndroidEnv \<Rightarrow> ('p, 'f, 'e) State \<times> ('p, 'f, 'e) AsyncAndroidEnv" where
  "next_observation self =
     (observations self (observed self), self\<lparr>observed := Suc (observed self)\<rparr>)"

text \<open>
  \<^verbatim>\<open>
  def reset(self, go_home: bool = False) -> State:
    if go_home:
      adb_utils.press_home_button(self._base_env)
    self.interaction_cache = ''
    return _process_timestep(self._base_env.reset())
  \<close>
\<close>

definition reset ::
  "bool \<Rightarrow> ('p, 'f, 'e) AsyncAndroidEnv \<Rightarrow> ('p, 'f, 'e) State \<times> ('p, 'f, 'e) AsyncAndroidEnv" where
  "reset go_home self =
     (let self1 = (if go_home then emit PressHomeButton self else self);
          self2 = self1\<lparr>interaction_cache := Some ''''\<rparr>
      in next_observation (emit EnvReset self2))"

text \<open>\<^verbatim>\<open>_get_state\<close>: one step of the device with the no-op action.\<close>

definition priv_get_state ::
  "('p, 'f, 'e) AsyncAndroidEnv \<Rightarrow> ('p, 'f, 'e) State \<times> ('p, 'f, 'e) AsyncAndroidEnv" where
  "priv_get_state self = next_observation (emit EnvStep self)"

text \<open>\<^verbatim>\<open>time.sleep\<close> raises \<^verbatim>\<open>ValueError\<close> on a negative duration.\<close>

definition sleep ::
  "rat \<Rightarrow> ('p, 'f, 'e) AsyncAndroidEnv \<Rightarrow> error + ('p, 'f, 'e) AsyncAndroidEnv" where
  "sleep secs self = (if secs < 0 then Inl ValueError else Inr (emit (Sleep secs) self))"

text \<open>
  The loop of \<^verbatim>\<open>_get_stable_state\<close>, with its variables \<^verbatim>\<open>stable_checks\<close>,
  \<^verbatim>\<open>elapsed_time\<close> and \<^verbatim>\<open>current_state\<close> as arguments:
  \<^verbatim>\<open>
  while stable_checks < stability_threshold and elapsed_time < timeout:
    if self._prior_state.ui_elements == current_state.ui_elements:
      stable_checks += 1
      if stable_checks == stability_threshold:
        break  # Exit early if stability is achieved.
    else:
      stable_checks = 0  # Reset if any change is detected
      self._prior_state = current_state
    time.sleep(sleep_duration)
    elapsed_time += sleep_duration
    current_state = self._get_state()
  return current_state
  \<close>
  The loop need not end (a \<^verbatim>\<open>sleep_duration\<close> of zero never advances
  \<^verbatim>\<open>elapsed_time\<close>), so the result is an option and \<open>None\<close> stands for a run
  that does not return.
\<close>

partial_function (option) stable_loop ::
  "int \<Rightarrow> rat \<Rightarrow> rat \<Rightarrow> int \<Rightarrow> rat \<Rightarrow> ('p, 'f, 'e) State \<Rightarrow> ('p, 'f, 'e) AsyncAndroidEnv \<Rightarrow>
   (('p, 'f, 'e) State, 'p, 'f, 'e) outcome" where
  "stable_loop stability_threshold sleep_duration timeout stable_checks elapsed_time
       current_state self =
     (if stable_checks < stability_threshold \<and> elapsed_time < timeout then
        (case prior_state self of
           None \<Rightarrow> Some (Inl AttributeError, self)
         | Some prior \<Rightarrow>
             (let matched = (ui_elements prior = ui_elements current_state);
                  stable_checks1 = (if matched then stable_checks + 1 else 0);
                  self1 = (if matched then self else self\<lparr>prior_state := Some current_state\<rparr>)
              in if matched \<and> stable_checks1 = stability_threshold
                 then Some (Inr current_state, self1)
                 else (case sleep sleep_duration self1 of
                         Inl e \<Rightarrow> Some (Inl e, self1)
                       | Inr self2 \<Rightarrow>
                           stable_loop stability_threshold sleep_duration timeout stable_checks1
                             (float_add elapsed_time sleep_duration)
                             (fst (priv_get_state self2)) (snd (priv_get_state self2)))))
      else Some (Inr current_state, self))"

text \<open>
  \<^verbatim>\<open>_get_stable_state\<close>: the baseline is acquired only when \<^verbatim>\<open>not self._prior_state\<close>,
  that is when \<^verbatim>\<open>_prior_state\<close> is \<^verbatim>\<open>None\<close> (a \<^verbatim>\<open>State\<close> object is always true).
\<close>

definition acquire_baseline ::
  "('p, 'f, 'e) AsyncAndroidEnv \<Rightarrow> ('p, 'f, 'e) AsyncAndroidEnv" where
  "acquire_baseline self =
     (case prior_state self of
        None \<Rightarrow> (snd (priv_get_state self))\<lparr>prior_state := Some (fst (priv_get_state self))\<rparr>
      | Some prior \<Rightarrow> self)"

definition priv_get_stable_state ::
  "int \<Rightarrow> rat \<Rightarrow> rat \<Rightarrow> ('p, 'f, 'e) AsyncAndroidEnv \<Rightarrow> (('p, 'f, 'e) State, 'p, 'f, 'e) outcome" where
  "priv_get_stable_state stability_threshold sleep_duration timeout self =
     (let self1 = acquire_baseline self
      in stable_loop stability_threshold sleep_duration timeout 0 0
           (fst (priv_get_state self1)) (snd (priv_get_state self1)))"

text \<open>\<^verbatim>\<open>get_state\<close> calls \<^verbatim>\<open>_get_stable_state\<close> with its default arguments.\<close>

definition get_state ::
  "bool \<Rightarrow> ('p, 'f, 'e) AsyncAndroidEnv \<Rightarrow> (('p, 'f, 'e) State, 'p, 'f, 'e) outcome" where
  "get_state wait_to_stabilize self =
     (if wait_to_stabilize then priv_get_stable_state 3 (1 / 2) 6 self
      else Some (Inr (fst (priv_get_state self)), snd (priv_get_state self)))"

definition display_message ::
  "string \<Rightarrow> string \<Rightarrow> ('p, 'f, 'e) AsyncAndroidEnv \<Rightarrow> ('p, 'f, 'e) AsyncAndroidEnv" where
  "display_message message header self =
     emit (SendAndroidIntent ''broadcast'' ''com.example.ACTION_UPDATE_OVERLAY''
             [(''task_type_string'', header), (''goal_string'', message)]) self"

text \<open>
  \<^verbatim>\<open>
  def execute_action(self, action):
    if action.action_type == json_action.ANSWER:
      self.interaction_cache = action.text
      if action.text:
        self.display_message(action.text, header='Agent answered:')
      return
    state = self.get_state(wait_to_stabilize=False)
    actuation.execute_adb_action(
        action, state.ui_elements, self.logical_screen_size, self._base_env)
  \<close>
  \<^verbatim>\<open>if action.text\<close> is false for \<^verbatim>\<open>None\<close> and for the empty string.
\<close>

definition execute_action ::
  "JSONAction \<Rightarrow> ('p, 'f, 'e) AsyncAndroidEnv \<Rightarrow> (unit, 'p, 'f, 'e) outcome" where
  "execute_action action self =
     (if action_type action = Some ANSWER then
        (let self1 = self\<lparr>interaction_cache := text_field action\<rparr>
         in case text_field action of
              None \<Rightarrow> Some (Inr (), self1)
            | Some t \<Rightarrow>
                if t \<noteq> [] then Some (Inr (), display_message t ''Agent answered:'' self1)
                else Some (Inr (), self1))
      else
        (case get_state False self of
           None \<Rightarrow> None
         | Some (Inl e, self1) \<Rightarrow> Some (Inl e, self1)
         | Some (Inr state, self1) \<Rightarrow>
             Some (Inr (),
               emit (ExecuteAdbAction action (ui_elements state))
                 (emit GetLogicalScreenSize self1))))"

section \<open>Vocabulary of the properties\<close>

text \<open>
  The comparison of \<^verbatim>\<open>app_name\<close> and of \<^verbatim>\<open>text\<close> as the specification words it:
  case-insensitive when both sides are set, and otherwise equal only when both are
  unset.
\<close>

definition semantic_match :: "string option \<Rightarrow> string option \<Rightarrow> bool" where
  "semantic_match u v =
     (case (u, v) of
        (Some s, Some t) \<Rightarrow> lower s = lower t
      | (None, None) \<Rightarrow> True
      | _ \<Rightarrow> False)"

text \<open>
  The eight fields that \<^verbatim>\<open>_compare_actions\<close> reads before \<^verbatim>\<open>orientation\<close>, each
  matched as the specification says; \<^verbatim>\<open>activity_nickname\<close> is not among them.
\<close>

definition compared_fields_match :: "JSONAction \<Rightarrow> JSONAction \<Rightarrow> bool" where
  "compared_fields_match a b =
     (semantic_match (app_name a) (app_name b) \<and>
      semantic_match (text_field a) (text_field b) \<and>
      action_type a = action_type b \<and> index a = index b \<and>
      x_field a = x_field b \<and> y_field a = y_field b \<and>
      direction a = direction b \<and> goal_status a = goal_status b)"

text \<open>\<^verbatim>\<open>JSONAction()\<close>, every field at its default.\<close>

definition no_fields :: JSONAction where
  "no_fields =
     \<lparr>action_type = None, index = None, x_field = None, y_field = None, text_field = None,
      direction = None, goal_status = None, app_name = None, activity_nickname = None\<rparr>"

text \<open>The durations of the calls to \<^verbatim>\<open>time.sleep\<close> in a trace, in order.\<close>

fun sleeps :: "'e event list \<Rightarrow> rat list" where
  "sleeps [] = []"
| "sleeps (Sleep secs # evs) = secs # sleeps evs"
| "sleeps (ev # evs) = sleeps evs"

text \<open>
  Two devices for the examples. A scripted device shows the screens of a script, one
  per request, and stays on the last one; a counting device shows a different screen at
  every request, so its UI never stabilizes.
\<close>

definition scripted_device :: "'e list list \<Rightarrow> nat \<Rightarrow> (unit, unit, 'e) State" where
  "scripted_device script n =
     \<lparr>pixels = (), forest = (),
      ui_elements = (if n < length script then script ! n else last script)\<rparr>"

definition counting_device :: "nat \<Rightarrow> (unit, unit, nat) State" where
  "counting_device n = \<lparr>pixels = (), forest = (), ui_elements = [n]\<rparr>"

text \<open>
  The loop on the counting device, between two iterations: the snapshot at hand is the
  last one observed and differs from the baseline.
\<close>

definition chasing ::
  "int \<Rightarrow> int \<Rightarrow> (unit, unit, nat) State \<Rightarrow> (unit, unit, nat) AsyncAndroidEnv \<Rightarrow> bool" where
  "chasing thr c cur self =
     (0 \<le> c \<and> c < thr \<and> observations self = counting_device \<and> 0 < observed self \<and>
      cur = counting_device (observed self - 1) \<and>
      (case prior_state self of None \<Rightarrow> False
       | Some prior \<Rightarrow> ui_elements prior \<noteq> ui_elements cur))"

text \<open>
  An environment in use. On a device that always shows the same screen, a
  stabilizing \<^verbatim>\<open>get_state\<close> leaves \<open>stabilized_env\<close>, with the first observation as
  baseline; the answer \<^verbatim>\<open>"42"\<close> then leaves \<open>used_env\<close>.
\<close>

definition stabilized_env :: "(unit, unit, nat) AsyncAndroidEnv" where
  "stabilized_env =
     \<lparr>observations = scripted_device [[7]], observed = 4,
      trace = [EnvStep, EnvStep, Sleep (1 / 2), EnvStep, Sleep (1 / 2), EnvStep],
      prior_state = Some (scripted_device [[7]] 0), interaction_cache = Some ''''\<rparr>"

definition used_env :: "(unit, unit, nat) AsyncAndroidEnv" where
  "used_env =
     stabilized_env\<lparr>interaction_cache := Some ''42'',
       trace := trace stabilized_env @
         [SendAndroidIntent ''broadcast'' ''com.example.ACTION_UPDATE_OVERLAY''
            [(''task_type_string'', ''Agent answered:''), (''goal_string'', ''42'')]]\<rparr>"

section \<open>Equality of actions\<close>

lemma getattr_orientation: "getattr a ''orientation'' = Inl AttributeError"
  by (simp add: getattr_def instance_dict_def)

lemma lower_match_semantic: "lower_match u v = semantic_match u v"
  by (simp add: lower_match_def semantic_match_def split: option.splits)

text \<open>
  \<^verbatim>\<open>_compare_actions\<close> has two outcomes: \<^verbatim>\<open>False\<close> when one of the eight fields
  differs, and \<^verbatim>\<open>AttributeError\<close> when all eight match, since reading
  \<^verbatim>\<open>a.orientation\<close> raises.
\<close>

lemma compare_actions_cases:
  "compare_actions a b =
     (if compared_fields_match a b then Inl AttributeError else Inr False)"
  by (simp add: compare_actions_def compared_fields_match_def lower_match_semantic
      getattr_orientation Let_def)

lemma compare_actions_never_True: "compare_actions a b \<noteq> Inr True"
  by (simp add: compare_actions_cases)

lemma semantic_match_sym: "semantic_match u v = semantic_match v u"
  by (auto simp: semantic_match_def split: option.splits)

lemma semantic_match_refl: "semantic_match u u"
  by (simp add: semantic_match_def split: option.splits)

lemma compared_fields_match_refl: "compared_fields_match a a"
  by (simp add: compared_fields_match_def semantic_match_refl)

lemma compared_fields_match_sym: "compared_fields_match a b = compared_fields_match b a"
  unfolding compared_fields_match_def
  by (subst semantic_match_sym [of "app_name a"], subst semantic_match_sym [of "text_field a"])
    auto

lemma compare_actions_sym: "compare_actions a b = compare_actions b a"
  by (simp add: compare_actions_cases compared_fields_match_sym [of a b])

lemma lower_Chrome: "lower ''Chrome'' = ''chrome''" "lower ''chrome'' = ''chrome''"
  by code_simp+

lemma fly_not_an_action_type: "''fly'' \<notin> set ACTION_TYPES"
  by (simp add: ACTION_TYPES_def CLICK_def DOUBLE_TAP_def SCROLL_def SWIPE_def INPUT_TEXT_def
      NAVIGATE_HOME_def NAVIGATE_BACK_def KEYBOARD_ENTER_def OPEN_APP_def STATUS_def WAIT_def
      LONG_PRESS_def ANSWER_def UNKNOWN_def)

text \<open>
  Claim C3, counterexample. Two \<^verbatim>\<open>open_app\<close> actions that differ only in
  \<^verbatim>\<open>activity_nickname\<close>: the comparison does not answer \<^verbatim>\<open>False\<close>, so they are not
  reported unequal.
\<close>

theorem nickname_not_compared_counterexample:
  "JSONAction_eq
     (no_fields\<lparr>action_type := Some OPEN_APP, activity_nickname := Some ''app_drawer''\<rparr>)
     (ActionObj
       (no_fields\<lparr>action_type := Some OPEN_APP, activity_nickname := Some ''quick_settings''\<rparr>))
   \<noteq> Inr False"
  by (simp add: JSONAction_eq_def compare_actions_cases compared_fields_match_def
      semantic_match_def no_fields_def)

text \<open>
  Claim C3, as amended. For all actions \<open>a\<close> and \<open>b\<close>, \<^verbatim>\<open>a == b\<close> is \<^verbatim>\<open>False\<close>
  if and only if one of the compared fields does not match: \<^verbatim>\<open>app_name\<close> and
  \<^verbatim>\<open>text\<close> case-insensitively when both are set and by null-equality otherwise,
  \<^verbatim>\<open>action_type\<close>, \<^verbatim>\<open>index\<close>, \<^verbatim>\<open>x\<close>, \<^verbatim>\<open>y\<close>, \<^verbatim>\<open>direction\<close> and \<^verbatim>\<open>goal_status\<close> by
  exact value. \<^verbatim>\<open>activity_nickname\<close> is not compared.
\<close>

theorem eq_False_iff_compared_field_differs:
  "(JSONAction_eq a (ActionObj b) = Inr False) = (\<not> compared_fields_match a b)"
  by (simp add: JSONAction_eq_def compare_actions_cases)

text \<open>
  Claim C4. Reflexivity asks that \<^verbatim>\<open>a == a\<close> be \<^verbatim>\<open>True\<close> for every action. In the
  program the comparison of an action with itself passes the eight field tests and
  then raises \<^verbatim>\<open>AttributeError\<close> at \<^verbatim>\<open>a.orientation\<close>: it is not defined on any
  pair \<open>(a, a)\<close>.
\<close>

theorem eq_self_raises: "JSONAction_eq a (ActionObj a) = Inl AttributeError"
  by (simp add: JSONAction_eq_def compare_actions_cases compared_fields_match_refl)

text \<open>
  Claim C5. The action \<^verbatim>\<open>JSONAction(action_type='click', index=5)\<close> is serialized to
  the string below, which holds exactly its two fields; and no action at all, so none
  that a parser could rebuild from that string, compares \<^verbatim>\<open>True\<close> with it.
\<close>

theorem round_trip_never_equal:
  "json_str (no_fields\<lparr>action_type := Some CLICK, index := Some (IndexInt 5)\<rparr>) =
     ''{\"action_type\":\"click\",\"index\":5}'' \<and>
   (\<forall>b. JSONAction_eq b
      (ActionObj (no_fields\<lparr>action_type := Some CLICK, index := Some (IndexInt 5)\<rparr>)) \<noteq> Inr True)"
proof
  show "json_str (no_fields\<lparr>action_type := Some CLICK, index := Some (IndexInt 5)\<rparr>) =
     ''{\"action_type\":\"click\",\"index\":5}''"
    by code_simp
  show "\<forall>b. JSONAction_eq b
      (ActionObj (no_fields\<lparr>action_type := Some CLICK, index := Some (IndexInt 5)\<rparr>)) \<noteq> Inr True"
    by (simp add: JSONAction_eq_def compare_actions_never_True)
qed

text \<open>
  Claim C6. With \<^verbatim>\<open>app_name\<close> \<^verbatim>\<open>"Chrome"\<close> against \<^verbatim>\<open>"chrome"\<close> the comparison raises
  \<^verbatim>\<open>AttributeError\<close> where the claim expects \<^verbatim>\<open>True\<close>; against \<^verbatim>\<open>None\<close> it answers
  \<^verbatim>\<open>False\<close>, as the claim says. The same holds for \<^verbatim>\<open>text\<close>.
\<close>

theorem chrome_comparison_raises:
  "JSONAction_eq (no_fields\<lparr>action_type := Some OPEN_APP, app_name := Some ''Chrome''\<rparr>)
     (ActionObj (no_fields\<lparr>action_type := Some OPEN_APP, app_name := Some ''chrome''\<rparr>)) =
     Inl AttributeError \<and>
   JSONAction_eq (no_fields\<lparr>action_type := Some OPEN_APP, app_name := Some ''Chrome''\<rparr>)
     (ActionObj (no_fields\<lparr>action_type := Some OPEN_APP\<rparr>)) = Inr False \<and>
   JSONAction_eq (no_fields\<lparr>action_type := Some INPUT_TEXT, text_field := Some ''Chrome''\<rparr>)
     (ActionObj (no_fields\<lparr>action_type := Some INPUT_TEXT, text_field := Some ''chrome''\<rparr>)) =
     Inl AttributeError \<and>
   JSONAction_eq (no_fields\<lparr>action_type := Some INPUT_TEXT, text_field := Some ''Chrome''\<rparr>)
     (ActionObj (no_fields\<lparr>action_type := Some INPUT_TEXT\<rparr>)) = Inr False"
  by (simp add: JSONAction_eq_def compare_actions_cases compared_fields_match_def
      semantic_match_def no_fields_def lower_Chrome)

section \<open>Construction of actions\<close>

text \<open>
  Claim C7, counterexample. \<^verbatim>\<open>'fly'\<close> is not one of the action types, and
  \<^verbatim>\<open>JSONAction(action_type='fly', index=5, x=10, y=20)\<close> is constructed without error.
\<close>

theorem unknown_kind_accepted_counterexample:
  "''fly'' \<notin> set ACTION_TYPES \<and>
   JSONAction_init (Some ''fly'') (Some (IndexInt 5)) (Some 10) (Some 20) None None None None None =
     Inr (no_fields\<lparr>action_type := Some ''fly'', index := Some (IndexInt 5),
            x_field := Some 10, y_field := Some 20\<rparr>)"
  by (simp add: fly_not_an_action_type JSONAction_init_def no_fields_def)

text \<open>
  Claim C7, as amended. Constructing an action validates nothing: every combination of
  field values, whether or not \<^verbatim>\<open>action_type\<close> is one of the action types, gives the
  action with exactly these fields.
\<close>

theorem construction_never_fails:
  "\<exists>a. JSONAction_init a_type idx x y txt dir status name nickname = Inr a \<and>
     action_type a = a_type \<and> index a = idx \<and> x_field a = x \<and> y_field a = y \<and>
     text_field a = txt \<and> direction a = dir \<and> goal_status a = status \<and>
     app_name a = name \<and> activity_nickname a = nickname"
  by (simp add: JSONAction_init_def)

section \<open>Rounding to the nearest double\<close>

lemma pow2_powi: "pow2 k = 2 powi k"
  by (simp add: pow2_def power_int_def inverse_eq_divide power_one_over)

lemma pow2_pos: "0 < pow2 k"
  by (simp add: pow2_powi)

lemma pow2_add: "pow2 (i + j) = pow2 i * pow2 j"
  by (simp add: pow2_powi power_int_add)

lemma pow2_of_nat: "pow2 (int n) = 2 ^ n"
  by (simp add: pow2_def)

lemma pow2_mono: "i \<le> j \<Longrightarrow> pow2 i \<le> pow2 j"
  by (simp add: pow2_powi power_int_increasing)

lemma pow2_of_int_power: "0 \<le> k \<Longrightarrow> pow2 k = rat_of_int (2 ^ nat k)"
  by (simp add: pow2_def)

lemma bitlen_pow2_bounds:
  assumes "0 < a"
  shows "pow2 (bitlen a - 1) \<le> of_int a" and "of_int a < pow2 (bitlen a)"
proof -
  from assms have ba: "0 \<le> bitlen a - 1" "0 \<le> bitlen a" by (simp_all add: bitlen_alt_def)
  from bitlen_bounds [OF assms]
  have "rat_of_int (2 ^ nat (bitlen a - 1)) \<le> of_int a" "rat_of_int a < of_int (2 ^ nat (bitlen a))"
    by (simp_all only: of_int_le_iff of_int_less_iff)
  then show "pow2 (bitlen a - 1) \<le> of_int a" and "of_int a < pow2 (bitlen a)"
    by (simp_all only: pow2_of_int_power [OF ba(1)] pow2_of_int_power [OF ba(2)])
qed

text \<open>\<open>ilog2\<close> is the binary exponent: \<open>2 ^ ilog2 x \<le> x < 2 ^ (ilog2 x + 1)\<close>.\<close>

lemma ilog2_bounds:
  assumes "0 < x"
  shows "pow2 (ilog2 x) \<le> x" and "x < pow2 (ilog2 x + 1)"
proof -
  obtain a b where ab: "quotient_of x = (a, b)" by force
  then have b: "0 < b" by (rule quotient_of_denom_pos)
  have x: "x = of_int a / of_int b" using ab by (rule quotient_of_div)
  with assms b have a: "0 < a" by (simp add: zero_less_divide_iff)
  define k where "k = bitlen a - bitlen b"
  note a1 = bitlen_pow2_bounds(1) [OF a] and a2 = bitlen_pow2_bounds(2) [OF a]
    and b1 = bitlen_pow2_bounds(1) [OF b] and b2 = bitlen_pow2_bounds(2) [OF b]
  have bpos: "(0::rat) < of_int b" using b by simp
  have xb: "x * of_int b = of_int a" using x bpos by simp
  have up: "x < pow2 (k + 1)"
  proof -
    have "x * pow2 (bitlen b - 1) \<le> x * of_int b"
      using assms b1 by (simp only: mult_left_mono less_imp_le)
    also have "\<dots> = of_int a" by (rule xb)
    also have "\<dots> < pow2 (bitlen a)" by (rule a2)
    also have "\<dots> = pow2 (k + 1) * pow2 (bitlen b - 1)"
      by (simp add: k_def flip: pow2_add)
    finally show ?thesis using pow2_pos [of "bitlen b - 1"] by (simp only: mult_less_cancel_right_pos)
  qed
  have low: "pow2 (k - 1) < x"
  proof -
    have "pow2 (k - 1) * of_int b < pow2 (k - 1) * pow2 (bitlen b)"
      using b2 pow2_pos [of "k - 1"] by (simp only: mult_less_cancel_left_pos)
    also have "\<dots> = pow2 (bitlen a - 1)" by (simp add: k_def flip: pow2_add)
    also have "\<dots> \<le> of_int a" by (rule a1)
    also have "\<dots> = x * of_int b" by (simp only: xb)
    finally show ?thesis using bpos by (simp only: mult_less_cancel_right_pos)
  qed
  have il: "ilog2 x = (if pow2 k \<le> x then k else k - 1)"
    by (simp add: ilog2_def ab k_def Let_def)
  show "pow2 (ilog2 x) \<le> x" using low by (simp add: il)
  show "x < pow2 (ilog2 x + 1)" using up by (simp add: il)
qed


lemma round_half_even_near: "\<bar>of_int (round_half_even x) - x\<bar> \<le> 1 / 2"
proof -
  have "of_int \<lfloor>x\<rfloor> \<le> x" "x < of_int \<lfloor>x\<rfloor> + 1" by linarith+
  then show ?thesis by (auto simp: round_half_even_def Let_def)
qed

lemma round_half_even_of_int: "round_half_even (of_int m) = m"
  by (simp add: round_half_even_def)

text \<open>
  Rounding moves a number by at most half a unit in the last place, and leaves a
  double (an integer below \<open>2 ^ 53\<close> in magnitude times a power of two, not below
  \<open>2 ^ - 1074\<close>) as it is.
\<close>

lemma round_double_near:
  assumes "x \<noteq> 0"
  shows "\<bar>round_double x - x\<bar> \<le> pow2 (max (ilog2 \<bar>x\<bar> - 52) (- 1074)) / 2"
proof -
  define q where "q = max (ilog2 \<bar>x\<bar> - 52) (- 1074)"
  define r where "r = rat_of_int (round_half_even (x / pow2 q))"
  have rd: "round_double x = r * pow2 q"
    using assms by (simp add: round_double_def q_def r_def Let_def)
  have pq: "0 < pow2 q" by (rule pow2_pos)
  have "r * pow2 q - x = (r - x / pow2 q) * pow2 q"
    using pq by (simp add: left_diff_distrib)
  then have "\<bar>round_double x - x\<bar> = \<bar>r - x / pow2 q\<bar> * pow2 q"
    using pq by (simp only: rd abs_mult abs_of_pos)
  also have "\<dots> \<le> 1 / 2 * pow2 q"
    using round_half_even_near [of "x / pow2 q"] pq
    by (simp only: r_def mult_right_mono less_imp_le)
  finally show ?thesis by (simp add: q_def)
qed


lemma round_double_exact:
  assumes m: "\<bar>m\<bar> < 2 ^ 53" and e: "- 1074 \<le> e"
  shows "round_double (of_int m * pow2 e) = of_int m * pow2 e"
proof (cases "m = 0")
  case True
  then show ?thesis by (simp add: round_double_def)
next
  case False
  define x where "x = rat_of_int m * pow2 e"
  define q where "q = max (ilog2 \<bar>x\<bar> - 52) (- 1074)"
  have pe: "0 < pow2 e" by (rule pow2_pos)
  have x0: "x \<noteq> 0" using False pe by (simp add: x_def)
  then have xpos: "0 < \<bar>x\<bar>" by simp
  have "rat_of_int \<bar>m\<bar> < rat_of_int (2 ^ 53)" using m by (simp only: of_int_less_iff)
  then have "\<bar>rat_of_int m\<bar> < pow2 53" by (simp add: pow2_def)
  then have "\<bar>rat_of_int m\<bar> * pow2 e < pow2 53 * pow2 e"
    using pe by (simp only: mult_less_cancel_right_pos)
  then have "\<bar>x\<bar> < pow2 (53 + e)"
    using pe by (simp only: x_def abs_mult abs_of_pos pow2_add)
  with ilog2_bounds(1) [OF xpos] have lt: "pow2 (ilog2 \<bar>x\<bar>) < pow2 (53 + e)" by simp
  have "ilog2 \<bar>x\<bar> < 53 + e"
  proof (rule ccontr)
    assume "\<not> ilog2 \<bar>x\<bar> < 53 + e"
    then have "pow2 (53 + e) \<le> pow2 (ilog2 \<bar>x\<bar>)" by (simp add: pow2_mono)
    with lt show False by simp
  qed
  with e have qe: "q \<le> e" by (simp add: q_def)
  define d where "d = nat (e - q)"
  have ed: "e = q + int d" using qe by (simp add: d_def)
  have pq: "0 < pow2 q" by (rule pow2_pos)
  have xq: "x = rat_of_int (m * 2 ^ d) * pow2 q"
    by (simp add: x_def ed pow2_add pow2_of_nat)
  then have "x / pow2 q = rat_of_int (m * 2 ^ d)" using pq by simp
  then have "round_half_even (x / pow2 q) = m * 2 ^ d"
    by (simp only: round_half_even_of_int)
  then have "round_double x = rat_of_int (m * 2 ^ d) * pow2 q"
    using x0 by (simp add: round_double_def q_def Let_def)
  with xq show ?thesis by (simp only: x_def)
qed

text \<open>0.1 + 0.2 is 0.30000000000000004, one unit in the last place above the double 0.3.\<close>

lemma tenth_plus_fifth:
  "float_add (round_double (1 / 10)) (round_double (2 / 10)) = round_double (3 / 10) + pow2 (- 54)"
  by code_simp

text \<open>
  Adding a double \<open>m * 2 ^ e\<close> to itself \<open>n\<close> times is exact as long as \<open>n * m\<close> stays
  below \<open>2 ^ 53\<close>.
\<close>

lemma additions_exact:
  assumes m: "0 < m" and e: "- 1074 \<le> e" and n: "int n * m < 2 ^ 53"
  shows "\<forall>j<n. float_add (of_nat j * (of_int m * pow2 e)) (of_int m * pow2 e) =
           of_nat (Suc j) * (of_int m * pow2 e)"
proof (intro allI impI)
  fix j
  assume j: "j < n"
  have "int (Suc j) * m \<le> int n * m" using j m by (simp add: mult_right_mono)
  then have "int (Suc j) * m < 2 ^ 53" using n by (rule le_less_trans)
  moreover have "0 \<le> int (Suc j) * m" using m by simp
  ultimately have "\<bar>int (Suc j) * m\<bar> < 2 ^ 53" by (simp only: abs_of_nonneg)
  from round_double_exact [OF this e]
  have "round_double (of_int (int (Suc j) * m) * pow2 e) = of_int (int (Suc j) * m) * pow2 e" .
  moreover have "of_nat j * (of_int m * pow2 e) + of_int m * pow2 e =
      rat_of_int (int (Suc j) * m) * pow2 e"
    by (simp add: algebra_simps)
  moreover have "of_nat (Suc j) * (of_int m * pow2 e) = rat_of_int (int (Suc j) * m) * pow2 e"
    by (simp add: algebra_simps)
  ultimately show "float_add (of_nat j * (of_int m * pow2 e)) (of_int m * pow2 e) =
      of_nat (Suc j) * (of_int m * pow2 e)"
    by (simp only: float_add_def)
qed

text \<open>The sums of the default \<^verbatim>\<open>sleep_duration\<close> 0.5 up to the default \<^verbatim>\<open>timeout\<close> 6.0.\<close>

lemma float_add_halves:
  "float_add 0 (1 / 2) = 1 / 2"
  "float_add (1 / 2) (1 / 2) = 1"
  "float_add 1 (1 / 2) = 3 / 2"
  "float_add (3 / 2) (1 / 2) = 2"
  "float_add 2 (1 / 2) = 5 / 2"
  "float_add (5 / 2) (1 / 2) = 3"
  "float_add 3 (1 / 2) = 7 / 2"
  "float_add (7 / 2) (1 / 2) = 4"
  "float_add 4 (1 / 2) = 9 / 2"
  "float_add (9 / 2) (1 / 2) = 5"
  "float_add 5 (1 / 2) = 11 / 2"
  "float_add (11 / 2) (1 / 2) = 6"
  by code_simp+

text \<open>The defaults: twelve additions of 0.5, each exact.\<close>

lemma exact_halves:
  "\<forall>j < nat \<lceil>(6::rat) / (1 / 2)\<rceil>.
     float_add (of_nat j * (1 / 2)) (1 / 2) = of_nat (Suc j) * (1 / 2)"
proof -
  have n: "nat \<lceil>(6::rat) / (1 / 2)\<rceil> = 12" by simp
  have half: "rat_of_int 1 * pow2 (- 1) = 1 / 2" by (simp add: pow2_def)
  have "\<forall>j<12. float_add (of_nat j * (rat_of_int 1 * pow2 (- 1))) (rat_of_int 1 * pow2 (- 1)) =
      of_nat (Suc j) * (rat_of_int 1 * pow2 (- 1))"
    by (rule additions_exact) simp_all
  then show ?thesis unfolding half n .
qed

section \<open>Reset\<close>

lemmas env_defs = priv_get_state_def next_observation_def emit_def sleep_def

lemma used_env_reached:
  "get_state True (AsyncAndroidEnv_init (scripted_device [[7]])) =
     Some (Inr (scripted_device [[7]] 3), stabilized_env) \<and>
   execute_action (no_fields\<lparr>action_type := Some ANSWER, text_field := Some ''42''\<rparr>)
     stabilized_env = Some (Inr (), used_env)"
  by (simp add: get_state_def priv_get_stable_state_def acquire_baseline_def
      AsyncAndroidEnv_init_def env_defs stable_loop.simps scripted_device_def Let_def
      float_add_halves stabilized_env_def used_env_def execute_action_def display_message_def
      no_fields_def)

text \<open>
  Claim C1, counterexample. After \<^verbatim>\<open>reset(go_home=True)\<close> on an environment that holds
  a baseline, the baseline is still stored, and the baseline step of the next
  stabilization call acquires nothing.
\<close>

theorem reset_keeps_baseline_counterexample:
  "prior_state (snd (reset True used_env)) = Some (scripted_device [[7]] 0) \<and>
   acquire_baseline (snd (reset True used_env)) = snd (reset True used_env)"
  by (simp add: reset_def env_defs Let_def acquire_baseline_def used_env_def stabilized_env_def)

text \<open>
  Claim C1, as amended. For every session, \<^verbatim>\<open>reset\<close> (with or without
  \<^verbatim>\<open>go_home\<close>) sets the interaction cache to the empty string and leaves the stored
  stabilization baseline as it was, so the next stabilization call reuses a baseline
  from before the reset when there is one.
\<close>

theorem reset_clears_cache_keeps_baseline:
  "interaction_cache (snd (reset go_home self)) = Some '''' \<and>
   prior_state (snd (reset go_home self)) = prior_state self \<and>
   acquire_baseline (snd (reset go_home (self\<lparr>prior_state := Some baseline\<rparr>))) =
     snd (reset go_home (self\<lparr>prior_state := Some baseline\<rparr>))"
  by (simp add: reset_def env_defs Let_def acquire_baseline_def)

section \<open>Stabilization\<close>

text \<open>
  Claim C2, counterexample. Threshold 3, the default \<^verbatim>\<open>sleep_duration\<close> and
  \<^verbatim>\<open>timeout\<close>, no baseline stored, and a device that shows two unstable screens, then
  \<open>A = [3]\<close> three times, then \<open>B = [4]\<close>, on which it stays. The first \<open>A\<close> becomes
  the baseline, the second and third are two matches, and the engine goes on to acquire
  \<open>B\<close>: it returns a snapshot with elements \<open>B\<close>, after nine observations.
\<close>

theorem three_samples_not_enough_counterexample:
  "priv_get_stable_state 3 (1 / 2) 6
     (AsyncAndroidEnv_init (scripted_device [[1::nat], [2], [3], [3], [3], [4]])) =
   Some (Inr \<lparr>pixels = (), forest = (), ui_elements = [4]\<rparr>,
     \<lparr>observations = scripted_device [[1], [2], [3], [3], [3], [4]],
      observed = 9,
      trace = [EnvStep, EnvStep, Sleep (1 / 2), EnvStep, Sleep (1 / 2), EnvStep, Sleep (1 / 2),
               EnvStep, Sleep (1 / 2), EnvStep, Sleep (1 / 2), EnvStep, Sleep (1 / 2), EnvStep,
               Sleep (1 / 2), EnvStep],
      prior_state = Some \<lparr>pixels = (), forest = (), ui_elements = [4]\<rparr>,
      interaction_cache = Some ''''\<rparr>)"
  by (simp add: priv_get_stable_state_def acquire_baseline_def AsyncAndroidEnv_init_def env_defs
      stable_loop.simps scripted_device_def Let_def float_add_halves)

text \<open>
  Claim C2, as amended. With threshold 3, the default \<^verbatim>\<open>sleep_duration\<close> and
  \<^verbatim>\<open>timeout\<close> and no baseline stored, on a device whose successive samples are two
  unstable ones (the second with elements other than \<open>A\<close>) and then four with elements
  \<open>A\<close>, the engine stops at the fourth consecutive \<open>A\<close>, the third that matches the
  baseline, and returns it: it makes six observations and never acquires a seventh
  sample.
\<close>

theorem stops_at_third_match:
  assumes "prior_state self = None"
    and "ui_elements (observations self (observed self + 1)) \<noteq> A"
    and "ui_elements (observations self (observed self + 2)) = A"
    and "ui_elements (observations self (observed self + 3)) = A"
    and "ui_elements (observations self (observed self + 4)) = A"
    and "ui_elements (observations self (observed self + 5)) = A"
  shows "priv_get_stable_state 3 (1 / 2) 6 self =
     Some (Inr (observations self (observed self + 5)),
       self\<lparr>observed := observed self + 6,
         trace := trace self @ [EnvStep, EnvStep, Sleep (1 / 2), EnvStep, Sleep (1 / 2), EnvStep,
                    Sleep (1 / 2), EnvStep, Sleep (1 / 2), EnvStep],
         prior_state := Some (observations self (observed self + 2))\<rparr>)"
proof (cases "ui_elements (observations self (observed self)) =
    ui_elements (observations self (observed self + 1))")
  case True
  with assms show ?thesis
    by (simp add: priv_get_stable_state_def acquire_baseline_def env_defs
        stable_loop.simps Let_def numeral_eq_Suc float_add_halves)
next
  case False
  with assms show ?thesis
    by (simp add: priv_get_stable_state_def acquire_baseline_def env_defs
        stable_loop.simps Let_def numeral_eq_Suc float_add_halves)
qed

theorem stops_at_third_match_witness:
  "priv_get_stable_state 3 (1 / 2) 6
     (AsyncAndroidEnv_init (scripted_device [[1::nat], [2], [3], [3], [3], [3], [4]])) =
   Some (Inr (scripted_device [[1], [2], [3], [3], [3], [3], [4]] 5),
     \<lparr>observations = scripted_device [[1], [2], [3], [3], [3], [3], [4]],
      observed = 6,
      trace = [EnvStep, EnvStep, Sleep (1 / 2), EnvStep, Sleep (1 / 2), EnvStep, Sleep (1 / 2),
               EnvStep, Sleep (1 / 2), EnvStep],
      prior_state = Some (scripted_device [[1], [2], [3], [3], [3], [3], [4]] 2),
      interaction_cache = Some ''''\<rparr>) \<and>
   ui_elements (scripted_device [[1::nat], [2], [3], [3], [3], [3], [4]] 5) = [3]"
  using stops_at_third_match
    [of "AsyncAndroidEnv_init (scripted_device [[1::nat], [2], [3], [3], [3], [3], [4]])" "[3]"]
  by (simp add: AsyncAndroidEnv_init_def scripted_device_def)

section \<open>Termination of the polling loop\<close>

lemma sleeps_append: "sleeps (xs @ ys) = sleeps xs @ sleeps ys"
  by (induction xs rule: sleeps.induct) simp_all




text \<open>
  A \<^verbatim>\<open>timeout\<close> that is not positive leaves no budget: the loop body never runs and
  nothing is slept, whatever \<open>timeout + sleep_duration\<close> is.
\<close>

lemma no_budget_no_sleep:
  assumes "timeout \<le> 0"
  shows "\<exists>self'. priv_get_stable_state stability_threshold sleep_duration timeout self =
           Some (Inr (observations self (observed self' - 1)), self') \<and>
         sleeps (trace self') = sleeps (trace self)"
proof -
  have "\<not> (0 < timeout)" using assms by simp
  then show ?thesis
    by (cases "prior_state self")
      (simp_all add: priv_get_stable_state_def acquire_baseline_def env_defs Let_def
        stable_loop.simps sleeps_append)
qed

text \<open>
  A \<^verbatim>\<open>sleep_duration\<close> of zero never advances \<^verbatim>\<open>elapsed_time\<close>: on a device that
  never stabilizes the call does not return.
\<close>

lemma float_add_zero: "float_add 0 0 = 0"
  by (simp add: float_add_def round_double_def)

lemma zero_sleep_aux:
  assumes "stable_loop thr sl T c el cur self = Some r"
  shows "\<not> (sl = 0 \<and> el = 0 \<and> 0 < T \<and> chasing thr c cur self)"
proof (rule stable_loop.raw_induct
    [where P = "\<lambda>thr sl T c el cur self r.
       \<not> (sl = 0 \<and> el = 0 \<and> 0 < T \<and> chasing thr c cur self)", OF _ assms], goal_cases)
  case (1 loop thr sl T c el cur self r)
  show ?case
  proof
    assume a: "sl = 0 \<and> el = 0 \<and> 0 < T \<and> chasing thr c cur self"
    then have sl: "sl = 0" and el: "el = 0" and T: "0 < T" and ch: "chasing thr c cur self"
      by simp_all
    from ch obtain prior where prior: "prior_state self = Some prior"
      and ne: "ui_elements prior \<noteq> ui_elements cur"
      by (auto simp: chasing_def split: option.splits)
    define self3 where
      "self3 = snd (priv_get_state (emit (Sleep 0) (self\<lparr>prior_state := Some cur\<rparr>)))"
    define cur3 where
      "cur3 = fst (priv_get_state (emit (Sleep 0) (self\<lparr>prior_state := Some cur\<rparr>)))"
    from 1(2) ch prior ne T
    have "loop thr 0 T 0 0 cur3 self3 = Some r"
      by (simp add: sl el chasing_def Let_def sleep_def float_add_zero self3_def cur3_def)
    moreover have "chasing thr 0 cur3 self3"
      using ch by (auto simp: chasing_def self3_def cur3_def env_defs counting_device_def)
    ultimately show False using 1(1) T by blast
  qed
qed

lemma zero_sleep_never_returns:
  assumes "0 < stability_threshold" and "0 < timeout"
  shows "priv_get_stable_state stability_threshold 0 timeout
           (AsyncAndroidEnv_init counting_device) = None"
proof (cases "priv_get_stable_state stability_threshold 0 timeout
    (AsyncAndroidEnv_init counting_device)")
  case None
  then show ?thesis .
next
  case (Some r)
  then have "stable_loop stability_threshold 0 timeout 0 0 (counting_device (Suc 0))
      \<lparr>observations = counting_device, observed = Suc (Suc 0), trace = [EnvStep, EnvStep],
       prior_state = Some (counting_device 0), interaction_cache = Some ''''\<rparr> = Some r"
    by (simp add: priv_get_stable_state_def acquire_baseline_def AsyncAndroidEnv_init_def
        env_defs Let_def)
  from zero_sleep_aux [OF this] assms show ?thesis
    by (simp add: chasing_def counting_device_def)
qed

text \<open>
  The loop returns when the additions are exact. Let \<open>n\<close> additions of \<open>p\<close> starting at
  0 be exact and reach \<open>T\<close>; from \<open>elapsed_time = k * p\<close> with \<open>k \<le> n\<close> the loop returns
  the last snapshot acquired, after at most \<open>n - k\<close> sleeps of \<open>p\<close> seconds each.
  By induction on \<open>n - k\<close>.
\<close>

lemma stable_loop_returns:
  fixes p T :: rat and n :: nat
  assumes p: "0 < p"
    and exact: "\<And>j. j < n \<Longrightarrow> float_add (of_nat j * p) p = of_nat (Suc j) * p"
    and n: "T \<le> of_nat n * p"
  shows "k \<le> n \<Longrightarrow> prior_state self \<noteq> None \<Longrightarrow> 0 < observed self \<Longrightarrow>
    cur = observations self (observed self - 1) \<Longrightarrow>
    \<exists>self' evs. stable_loop thr p T c (of_nat k * p) cur self =
        Some (Inr (observations self (observed self' - 1)), self') \<and>
      trace self' = trace self @ evs \<and> sleeps evs = replicate (length (sleeps evs)) p \<and>
      length (sleeps evs) \<le> n - k \<and> observed self \<le> observed self'"
proof (induction "n - k" arbitrary: k c cur self)
  case 0
  then have "k = n" by simp
  with n have "\<not> of_nat k * p < T" by simp
  then have "stable_loop thr p T c (of_nat k * p) cur self = Some (Inr cur, self)"
    by (subst stable_loop.simps) simp
  with "0.prems" show ?case by simp
next
  case (Suc m)
  then have k: "k < n" and m: "m = n - Suc k" by simp_all
  from Suc.prems obtain prior where prior: "prior_state self = Some prior" by auto
  show ?case
  proof (cases "c < thr \<and> of_nat k * p < T")
    case False
    then have "stable_loop thr p T c (of_nat k * p) cur self = Some (Inr cur, self)"
      by (subst stable_loop.simps) auto
    with Suc.prems show ?thesis by simp
  next
    case running: True
    define matched where "matched = (ui_elements prior = ui_elements cur)"
    define c1 where "c1 = (if matched then c + 1 else 0)"
    define self1 where "self1 = (if matched then self else self\<lparr>prior_state := Some cur\<rparr>)"
    show ?thesis
    proof (cases "matched \<and> c1 = thr")
      case True
      then have "ui_elements prior = ui_elements cur" "c + 1 = thr"
        by (auto simp: matched_def c1_def split: if_splits)
      with running prior
      have "stable_loop thr p T c (of_nat k * p) cur self = Some (Inr cur, self)"
        by (subst stable_loop.simps) (simp add: Let_def)
      with Suc.prems show ?thesis by simp
    next
      case False
      define self2 where "self2 = emit (Sleep p) self1"
      define self3 where "self3 = snd (priv_get_state self2)"
      define cur3 where "cur3 = fst (priv_get_state self2)"
      from False running prior p
      have step: "stable_loop thr p T c (of_nat k * p) cur self =
          stable_loop thr p T c1 (of_nat (Suc k) * p) cur3 self3"
        by (subst stable_loop.simps)
          (simp add: matched_def c1_def self1_def self2_def self3_def cur3_def Let_def sleep_def
            exact [OF k] del: of_nat_Suc)
      have facts: "prior_state self3 \<noteq> None" "0 < observed self3"
        "cur3 = observations self3 (observed self3 - 1)"
        "observations self3 = observations self"
        "trace self3 = trace self @ [Sleep p, EnvStep]" "observed self \<le> observed self3"
        using prior by (simp_all add: self3_def cur3_def self2_def self1_def env_defs)
      from k have "Suc k \<le> n" by simp
      from Suc.hyps(1) [OF m this facts(1-3), of c1]
      obtain self' evs where
        IH: "stable_loop thr p T c1 (of_nat (Suc k) * p) cur3 self3 =
            Some (Inr (observations self3 (observed self' - 1)), self')"
          "trace self' = trace self3 @ evs" "sleeps evs = replicate (length (sleeps evs)) p"
          "length (sleeps evs) \<le> n - Suc k" "observed self3 \<le> observed self'"
        by blast
      let ?evs = "[Sleep p, EnvStep] @ evs"
      have "stable_loop thr p T c (of_nat k * p) cur self =
          Some (Inr (observations self (observed self' - 1)), self')"
        using step IH(1) facts(4) by simp
      moreover have "trace self' = trace self @ ?evs"
        using IH(2) facts(5) by simp
      moreover have "sleeps ?evs = replicate (length (sleeps ?evs)) p"
        using IH(3) by simp
      moreover have "length (sleeps ?evs) \<le> n - k"
        using IH(4) k by simp
      moreover have "observed self \<le> observed self'"
        using IH(5) facts(6) by simp
      ultimately show ?thesis by blast
    qed
  qed
qed




text \<open>
  What follows the sixth sample does not matter: whenever two unstable samples (the
  second other than \<open>A\<close>) are followed by exactly three samples \<open>A\<close>, the call returns
  only after a sixth observation or more.
\<close>

lemma sixth_sample_acquired:
  assumes "prior_state self = None"
    and "ui_elements (observations self (observed self + 1)) \<noteq> A"
    and "ui_elements (observations self (observed self + 2)) = A"
    and "ui_elements (observations self (observed self + 3)) = A"
    and "ui_elements (observations self (observed self + 4)) = A"
    and "ui_elements (observations self (observed self + 5)) \<noteq> A"
  shows "\<exists>r self'. priv_get_stable_state 3 (1 / 2) 6 self = Some (r, self') \<and>
           observed self + 6 \<le> observed self'"
proof -
  define s4 where "s4 = self\<lparr>observed := observed self + 6,
         trace := trace self @ [EnvStep, EnvStep, Sleep (1 / 2), EnvStep, Sleep (1 / 2), EnvStep,
                    Sleep (1 / 2), EnvStep, Sleep (1 / 2), EnvStep],
         prior_state := Some (observations self (observed self + 2))\<rparr>"
  have run: "priv_get_stable_state 3 (1 / 2) 6 self =
      stable_loop 3 (1 / 2) 6 2 (of_nat 4 * (1 / 2)) (observations self (observed self + 5)) s4"
  proof (cases "ui_elements (observations self (observed self)) =
      ui_elements (observations self (observed self + 1))")
    case True
    with assms show ?thesis
      apply (simp add: priv_get_stable_state_def acquire_baseline_def env_defs s4_def
          Let_def numeral_eq_Suc float_add_halves)
      apply (subst stable_loop.simps, simp add: env_defs Let_def float_add_halves)
      apply (subst stable_loop.simps, simp add: env_defs Let_def float_add_halves)
      apply (subst stable_loop.simps, simp add: env_defs Let_def float_add_halves)
      apply (subst stable_loop.simps, simp add: env_defs Let_def float_add_halves)
      apply (rule arg_cong [where f = "stable_loop _ _ _ _ _ _"])
      apply simp
      done
  next
    case False
    with assms show ?thesis
      apply (simp add: priv_get_stable_state_def acquire_baseline_def env_defs s4_def
          Let_def numeral_eq_Suc float_add_halves)
      apply (subst stable_loop.simps, simp add: env_defs Let_def float_add_halves)
      apply (subst stable_loop.simps, simp add: env_defs Let_def float_add_halves)
      apply (subst stable_loop.simps, simp add: env_defs Let_def float_add_halves)
      apply (subst stable_loop.simps, simp add: env_defs Let_def float_add_halves)
      apply (rule arg_cong [where f = "stable_loop _ _ _ _ _ _"])
      apply simp
      done
  qed
  have "\<exists>self' evs. stable_loop 3 (1 / 2) 6 2 (of_nat 4 * (1 / 2))
        (observations self (observed self + 5)) s4 =
        Some (Inr (observations s4 (observed self' - 1)), self') \<and>
      trace self' = trace s4 @ evs \<and> sleeps evs = replicate (length (sleeps evs)) (1 / 2) \<and>
      length (sleeps evs) \<le> 12 - 4 \<and> observed s4 \<le> observed self'"
  proof (rule stable_loop_returns)
    show "(0::rat) < 1 / 2" by simp
    show "float_add (of_nat j * (1 / 2)) (1 / 2) = of_nat (Suc j) * (1 / 2)" if "j < 12" for j
      using exact_halves that by simp
    show "(6::rat) \<le> of_nat 12 * (1 / 2)" by simp
    show "4 \<le> (12::nat)" by simp
    show "prior_state s4 \<noteq> None" "0 < observed s4"
      "observations self (observed self + 5) = observations s4 (observed s4 - 1)"
      by (simp_all add: s4_def ac_simps)
  qed
  with run show ?thesis by (auto simp: s4_def)
qed

section \<open>Answer actions\<close>

text \<open>
  Claim C9. Executing an answer action with text \<^verbatim>\<open>"42"\<close> sets the interaction cache
  to \<^verbatim>\<open>"42"\<close> and sends exactly one message to the display; with the empty text it
  sets the cache to the empty string and sends nothing. In both cases nothing else
  changes: no observation is requested and no action is passed to the actuation.
\<close>

theorem answer_sets_cache_and_displays:
  "execute_action (action\<lparr>action_type := Some ANSWER, text_field := Some ''42''\<rparr>) self =
     Some (Inr (), self\<lparr>interaction_cache := Some ''42'',
       trace := trace self @
         [SendAndroidIntent ''broadcast'' ''com.example.ACTION_UPDATE_OVERLAY''
            [(''task_type_string'', ''Agent answered:''), (''goal_string'', ''42'')]]\<rparr>) \<and>
   execute_action (action\<lparr>action_type := Some ANSWER, text_field := Some ''''\<rparr>) self =
     Some (Inr (), self\<lparr>interaction_cache := Some ''''\<rparr>)"
  by (simp add: execute_action_def display_message_def emit_def)

text \<open>
  Claim C10. Executing an answer action whose text is \<^verbatim>\<open>None\<close> sets the interaction
  cache to \<^verbatim>\<open>None\<close>, which is not the empty string, and sends nothing to the display.
\<close>

theorem answer_without_text_sets_cache_to_None:
  "execute_action (action\<lparr>action_type := Some ANSWER, text_field := None\<rparr>) self =
     Some (Inr (), self\<lparr>interaction_cache := None\<rparr>)"
  by (simp add: execute_action_def)

end
